theory Spec2Isabelle
  imports Complex_Main "HOL-Library.Word"
begin

section \<open>JavaScript values\<close>

text \<open>
  A thrown JavaScript value. \<open>Error m r\<close> is an error object with message \<open>m\<close> and, for
  the errors raised by the ethers library, the optional property \<open>reason\<close>;
  \<open>TypeError\<close> is what reading a property of \<open>undefined\<close> raises. An \<open>async\<close>
  function that rejects and a function that throws are both the left injection of a sum.
\<close>

datatype error = Error (message: string) (reason: "string option") | TypeError

text \<open>Truthiness of an optional string and of an optional number, as \<open>if (x)\<close> and
  \<open>x || y\<close> read them: \<open>undefined\<close>, the empty string and \<open>0\<close> are falsy.\<close>

fun truthy_string :: "string option \<Rightarrow> bool" where
  "truthy_string None = False"
| "truthy_string (Some s) = (s \<noteq> [])"

fun truthy_number :: "nat option \<Rightarrow> bool" where
  "truthy_number None = False"
| "truthy_number (Some n) = (n \<noteq> 0)"

section \<open>The swap engine: \<open>src/services/uniswap.js\<close>\<close>

subsection \<open>Data of the Uniswap SDK\<close>

text \<open>The members of the SDK's \<open>ChainId\<close> that the source names.\<close>

datatype ChainId = MAINNET | KOVAN

text \<open>Asset, Pair, Route and Trade as section 3 of the specification describes them.\<close>

record Token =
  tokChainId :: ChainId
  tokAddress :: string
  tokSymbol :: string
  tokDecimals :: nat

record UniPair =
  assetA :: Token
  assetB :: Token
  reserveA :: nat
  reserveB :: nat

record Route =
  pairs :: "UniPair list"
  path :: "Token list"
  inputAsset :: Token
  outputAsset :: Token

datatype TradeType = EXACT_INPUT | EXACT_OUTPUT

record Trade =
  tradeRoute :: Route
  tradeType :: TradeType
  inputAmount :: int
  outputAmount :: int

text \<open>\<open>new uni.Percent(n, d)\<close>: the fraction \<open>n / d\<close>.\<close>

record Percent =
  numerator :: int
  denominator :: int

text \<open>The four router variants of section 4.3, by direction and by which side is the
  native asset.\<close>

datatype methodSelector =
  TokenForToken TradeType | NativeForToken TradeType | TokenForNative TradeType

record callArgs =
  amountFixed :: int
  amountBound :: int
  addressPath :: "string list"
  toAddress :: string
  deadline :: nat

record SwapCallParameters =
  methodName :: methodSelector
  args :: callArgs
  nativeValue :: int

subsection \<open>The node, as ethers presents it\<close>

record Wallet =
  walletAddress :: string

record TransactionReceipt =
  transactionHash :: string
  blockNumber :: nat
  status :: bool

text \<open>What a contract method call resolves to once the node has accepted the transaction:
  the hash, and what \<open>tx.wait()\<close> will resolve or reject with.\<close>

record TransactionResponse =
  hash :: string
  wait :: "error + TransactionReceipt"

record gasOverrides =
  gasPrice :: nat
  gasLimit :: nat

record overrides = gasOverrides +
  txValue :: int

text \<open>
  Everything the engine reads from outside: the environment variables, the SDK's
  fetchers and its table of wrapped native assets, the clock, and the router contract
  behind the signer. \<open>getReserves\<close> is the on-chain read inside
  \<open>Fetcher.fetchPairData\<close>; \<open>counterAmount\<close> is the amount that \<open>Trade.exactIn\<close> and
  \<open>Trade.exactOut\<close> compute along a route (section 4.2), which fails on insufficient
  liquidity.
\<close>

record process_env =
  ETHEREUM_RPC_URL :: "string option"
  ETHEREUM_CHAIN :: "string option"
  UNISWAP_ROUTER :: "string option"

record uni_env =
  fetchTokenData :: "ChainId \<Rightarrow> string \<Rightarrow> error + Token"
  getReserves :: "Token \<Rightarrow> Token \<Rightarrow> error + nat \<times> nat"
  WETH :: "ChainId \<Rightarrow> Token"
  counterAmount :: "Route \<Rightarrow> TradeType \<Rightarrow> Token \<Rightarrow> int \<Rightarrow> error + int"
  currentTime :: nat
  contractCall ::
    "Wallet \<Rightarrow> string option \<Rightarrow> SwapCallParameters \<Rightarrow> overrides \<Rightarrow> error + TransactionResponse"

subsection \<open>Constants and constructor\<close>

definition GAS_LIMIT :: nat where
  "GAS_LIMIT = 1200000"

definition TTL :: nat where
  "TTL = 60"

record Uniswap =
  network :: "string option"
  chainID :: ChainId
  providerUrl :: "string option"
  router :: "string option"
  allowedSlippage :: Percent

text \<open>
  \<open>constructor(network = 'kovan')\<close>: a missing argument is \<open>'kovan'\<close>. The field
  \<open>network\<close> is taken from the environment, not from the argument; the chain id is
  decided by the argument, and any other argument throws
  \<open>Error(`Invalid network ${network}`)\<close>.
\<close>

definition constructor :: "process_env \<Rightarrow> string option \<Rightarrow> error + Uniswap" where
  "constructor penv arg =
     (let net = (case arg of None \<Rightarrow> ''kovan'' | Some n \<Rightarrow> n);
          this = \<lparr> network = ETHEREUM_CHAIN penv,
                   chainID = KOVAN,
                   providerUrl = ETHEREUM_RPC_URL penv,
                   router = UNISWAP_ROUTER penv,
                   allowedSlippage = \<lparr> numerator = 0, denominator = 100 \<rparr> \<rparr>
      in if net = ''kovan'' then Inr (this \<lparr> chainID := KOVAN \<rparr>)
         else if net = ''mainnet'' then Inr (this \<lparr> chainID := MAINNET \<rparr>)
         else Inl (Error (''Invalid network '' @ net) None))"

subsection \<open>Route resolution\<close>

text \<open>
  Modelled from the spec: \<open>Fetcher.fetchPairData\<close> of the SDK, which is not part of the
  sources. Section 2: it "retrieves on-chain reserve state for a given asset pair; fails
  when no liquidity pool exists for that pair"; the pair is the record of section 3 over
  the two assets asked for.
\<close>

definition fetchPairData :: "uni_env \<Rightarrow> Token \<Rightarrow> Token \<Rightarrow> error + UniPair" where
  "fetchPairData env a b =
     (case getReserves env a b of
        Inl e \<Rightarrow> Inl e
      | Inr (ra, rb) \<Rightarrow> Inr \<lparr> assetA = a, assetB = b, reserveA = ra, reserveB = rb \<rparr>)"

text \<open>
  Modelled from the spec: the constructor \<open>new uni.Route(pairs, input, output)\<close> of the
  SDK. Section 3: a route is an "ordered sequence of ... Pairs forming a connected path
  from inputAsset to outputAsset", where "consecutive pairs share exactly one asset".
  \<open>walk\<close> follows the pairs from the input asset, each pair leading to its other asset;
  the constructor throws when the list is empty, when a pair does not hold the asset
  reached so far, or when the walk does not end at the output asset.
\<close>

fun walk :: "Token \<Rightarrow> UniPair list \<Rightarrow> error + Token list" where
  "walk cur [] = Inr [cur]"
| "walk cur (p # ps) =
     (if cur = assetA p then
        (case walk (assetB p) ps of Inl e \<Rightarrow> Inl e | Inr ts \<Rightarrow> Inr (cur # ts))
      else if cur = assetB p then
        (case walk (assetA p) ps of Inl e \<Rightarrow> Inl e | Inr ts \<Rightarrow> Inr (cur # ts))
      else Inl (Error ''PATH'' None))"

definition newRoute :: "UniPair list \<Rightarrow> Token \<Rightarrow> Token \<Rightarrow> error + Route" where
  "newRoute ps tin tout =
     (if ps = [] then Inl (Error ''PAIRS'' None)
      else case walk tin ps of
        Inl e \<Rightarrow> Inl e
      | Inr ts \<Rightarrow>
          if last ts = tout
          then Inr \<lparr> pairs = ps, path = ts, inputAsset = tin, outputAsset = tout \<rparr>
          else Inl (Error ''OUTPUT'' None))"

text \<open>
  The body of the \<open>try\<close> block of \<open>fetch_route\<close>: the direct pair and the route over it.
  Whatever either of them throws is caught.
\<close>

definition direct_route :: "uni_env \<Rightarrow> Token \<Rightarrow> Token \<Rightarrow> error + Route" where
  "direct_route env tIn tOut =
     (case fetchPairData env tIn tOut of
        Inl e \<Rightarrow> Inl e
      | Inr pair \<Rightarrow> newRoute [pair] tIn tOut)"

text \<open>The body of the \<open>catch\<close> block: nothing in it is caught.\<close>

definition indirect_route :: "uni_env \<Rightarrow> Uniswap \<Rightarrow> Token \<Rightarrow> Token \<Rightarrow> error + Route" where
  "indirect_route env this tIn tOut =
     (case fetchPairData env tIn (WETH env (chainID this)) of
        Inl e \<Rightarrow> Inl e
      | Inr pairOne \<Rightarrow>
          (case fetchPairData env tOut (WETH env (chainID this)) of
             Inl e \<Rightarrow> Inl e
           | Inr pairTwo \<Rightarrow> newRoute [pairOne, pairTwo] tIn tOut))"

definition fetch_route :: "uni_env \<Rightarrow> Uniswap \<Rightarrow> string \<Rightarrow> string \<Rightarrow> error + Route" where
  "fetch_route env this tokenIn tokenOut =
     (case fetchTokenData env (chainID this) tokenIn of
        Inl e \<Rightarrow> Inl e
      | Inr tIn \<Rightarrow>
          (case fetchTokenData env (chainID this) tokenOut of
             Inl e \<Rightarrow> Inl e
           | Inr tOut \<Rightarrow>
               (case direct_route env tIn tOut of
                  Inr r \<Rightarrow> Inr r
                | Inl err \<Rightarrow> indirect_route env this tIn tOut)))"

subsection \<open>Building and submitting a swap\<close>

text \<open>
  \<open>uni.Trade.exactIn(route, amount)\<close> and \<open>uni.Trade.exactOut(route, amount)\<close>: the
  fixed side is the caller's amount, the other side is the counter-amount computed along
  the route.
\<close>

definition exactIn :: "uni_env \<Rightarrow> Route \<Rightarrow> Token \<Rightarrow> int \<Rightarrow> error + Trade" where
  "exactIn env rt tok amountIn =
     (case counterAmount env rt EXACT_INPUT tok amountIn of
        Inl e \<Rightarrow> Inl e
      | Inr c \<Rightarrow> Inr \<lparr> tradeRoute = rt, tradeType = EXACT_INPUT,
                       inputAmount = amountIn, outputAmount = c \<rparr>)"

definition exactOut :: "uni_env \<Rightarrow> Route \<Rightarrow> Token \<Rightarrow> int \<Rightarrow> error + Trade" where
  "exactOut env rt tok amountOut =
     (case counterAmount env rt EXACT_OUTPUT tok amountOut of
        Inl e \<Rightarrow> Inl e
      | Inr c \<Rightarrow> Inr \<lparr> tradeRoute = rt, tradeType = EXACT_OUTPUT,
                       inputAmount = c, outputAmount = amountOut \<rparr>)"

text \<open>The options object \<open>{ ttl, recipient, allowedSlippage }\<close>.\<close>

record TradeOptions =
  ttl :: nat
  recipient :: string
  slippage :: Percent

text \<open>
  Modelled from the spec: the slippage bound of section 4.2, which the SDK computes:
  \<open>minOut = counterAmount \<times> (1 - tolerance)\<close> for ExactIn and
  \<open>maxIn = counterAmount \<times> (1 + tolerance)\<close> for ExactOut, on integers, where
  "division truncates toward zero". The tolerance is the fraction \<open>n / d\<close>. Amounts
  are never negative, and there \<open>div\<close> on integers truncates.
\<close>

definition boundAmount :: "Percent \<Rightarrow> TradeType \<Rightarrow> int \<Rightarrow> int" where
  "boundAmount tol dir counter =
     (case dir of
        EXACT_INPUT \<Rightarrow> (counter * (denominator tol - numerator tol)) div denominator tol
      | EXACT_OUTPUT \<Rightarrow> (counter * (denominator tol + numerator tol)) div denominator tol)"

text \<open>
  Modelled from the spec: \<open>uni.Router.swapCallParameters\<close> of the SDK. Section 4.2:
  "deadline = currentTime + TTL"; section 4.3: the call "encodes the route's asset address
  sequence, the bound amount, the recipient, and the deadline", and the native value is
  "the trade's input amount only when the input asset is the chain's native asset;
  otherwise zero". Every asset of a route is a token here, so the method is the
  token-for-token variant of the trade's direction and the native value is zero.
\<close>

definition swapCallParameters :: "uni_env \<Rightarrow> Trade \<Rightarrow> TradeOptions \<Rightarrow> SwapCallParameters" where
  "swapCallParameters env trade opts =
     \<lparr> methodName = TokenForToken (tradeType trade),
       args = \<lparr> amountFixed = (case tradeType trade of
                                 EXACT_INPUT \<Rightarrow> inputAmount trade
                               | EXACT_OUTPUT \<Rightarrow> outputAmount trade),
                amountBound = (case tradeType trade of
                                 EXACT_INPUT \<Rightarrow>
                                   boundAmount (slippage opts) EXACT_INPUT (outputAmount trade)
                               | EXACT_OUTPUT \<Rightarrow>
                                   boundAmount (slippage opts) EXACT_OUTPUT (inputAmount trade)),
                addressPath = map tokAddress (path (tradeRoute trade)),
                toAddress = recipient opts,
                deadline = currentTime env + ttl opts \<rparr>,
       nativeValue = 0 \<rparr>"

text \<open>The constant \<open>result\<close> of \<open>swapExactIn\<close> and of \<open>swapExactOut\<close>: the call that
  is built before anything is sent.\<close>

definition swapExactIn_result ::
  "uni_env \<Rightarrow> Uniswap \<Rightarrow> Wallet \<Rightarrow> Route \<Rightarrow> string \<Rightarrow> int \<Rightarrow> error + SwapCallParameters" where
  "swapExactIn_result env this wallet rt tokenAddress amountIn =
     (case fetchTokenData env (chainID this) tokenAddress of
        Inl e \<Rightarrow> Inl e
      | Inr tIn \<Rightarrow>
          (case exactIn env rt tIn amountIn of
             Inl e \<Rightarrow> Inl e
           | Inr trade \<Rightarrow>
               Inr (swapCallParameters env trade
                      \<lparr> ttl = TTL, recipient = walletAddress wallet,
                        slippage = allowedSlippage this \<rparr>)))"

definition swapExactOut_result ::
  "uni_env \<Rightarrow> Uniswap \<Rightarrow> Wallet \<Rightarrow> Route \<Rightarrow> string \<Rightarrow> int \<Rightarrow> error + SwapCallParameters" where
  "swapExactOut_result env this wallet rt tokenAddress amountOut =
     (case fetchTokenData env (chainID this) tokenAddress of
        Inl e \<Rightarrow> Inl e
      | Inr tOut \<Rightarrow>
          (case exactOut env rt tOut amountOut of
             Inl e \<Rightarrow> Inl e
           | Inr trade \<Rightarrow>
               Inr (swapCallParameters env trade
                      \<lparr> ttl = TTL, recipient = walletAddress wallet,
                        slippage = allowedSlippage this \<rparr>)))"

text \<open>
  The rest of both functions: the router method named by \<open>result.methodName\<close> (the
  source writes \<open>contract.[result.methodName](...)\<close>) is called with the gas price turned
  from gwei into wei, the fixed gas limit and the call's value; then \<open>await tx.wait()\<close>,
  and what that resolves to is returned. The gas price is a whole number of gwei here.
\<close>

definition swapExactIn ::
  "uni_env \<Rightarrow> Uniswap \<Rightarrow> Wallet \<Rightarrow> Route \<Rightarrow> string \<Rightarrow> int \<Rightarrow> nat
     \<Rightarrow> error + TransactionReceipt" where
  "swapExactIn env this wallet rt tokenAddress amountIn gwei =
     (case swapExactIn_result env this wallet rt tokenAddress amountIn of
        Inl e \<Rightarrow> Inl e
      | Inr result \<Rightarrow>
          (case contractCall env wallet (router this) result
                  \<lparr> gasPrice = gwei * 10 ^ 9, gasLimit = GAS_LIMIT,
                    txValue = nativeValue result \<rparr> of
             Inl e \<Rightarrow> Inl e
           | Inr tx \<Rightarrow> wait tx))"

definition swapExactOut ::
  "uni_env \<Rightarrow> Uniswap \<Rightarrow> Wallet \<Rightarrow> Route \<Rightarrow> string \<Rightarrow> int \<Rightarrow> nat
     \<Rightarrow> error + TransactionReceipt" where
  "swapExactOut env this wallet rt tokenAddress amountOut gwei =
     (case swapExactOut_result env this wallet rt tokenAddress amountOut of
        Inl e \<Rightarrow> Inl e
      | Inr result \<Rightarrow>
          (case contractCall env wallet (router this) result
                  \<lparr> gasPrice = gwei * 10 ^ 9, gasLimit = GAS_LIMIT,
                    txValue = nativeValue result \<rparr> of
             Inl e \<Rightarrow> Inl e
           | Inr tx \<Rightarrow> wait tx))"

section \<open>The Ethereum service: \<open>src/services/eth\<close>\<close>

text \<open>A result of TypeScript type \<open>T | string\<close>: the functions of this class catch
  what is thrown and return a string in its place.\<close>

datatype 'a or_string = Value 'a | Str string

text \<open>\<open>err.reason ? (reason = err.reason) : (reason = d)\<close>.\<close>

fun reason_or :: "error \<Rightarrow> string \<Rightarrow> string" where
  "reason_or (Error m r) d = (if truthy_string r then the r else d)"
| "reason_or TypeError d = d"

record TokenInfo =
  symbol :: string
  address :: string
  decimals :: nat

text \<open>The token list object; the object \<open>{}\<close> has no property \<open>tokens\<close>.\<close>

record TokenList =
  tokens :: "TokenInfo list option"

record Ethereum =
  ethNetwork :: string
  erc20TokenListURL :: "string option"
  erc20TokenList :: TokenList

record eth_env =
  ETHEREUM_TOKEN_LIST_URL :: "string option"
  ETH_APPROVAL_GAS_LIMIT :: "nat option"
  getBalance :: "Wallet \<Rightarrow> error + nat"
  approve :: "Wallet \<Rightarrow> string \<Rightarrow> string \<Rightarrow> string \<Rightarrow> gasOverrides \<Rightarrow> error + TransactionResponse"
  readTokenFile :: "error + TokenList"
  axiosGet :: "string option \<Rightarrow> error + nat \<times> TokenList option"

definition APPROVAL_GAS_LIMIT :: "eth_env \<Rightarrow> nat" where
  "APPROVAL_GAS_LIMIT env =
     (if truthy_number (ETH_APPROVAL_GAS_LIMIT env) then the (ETH_APPROVAL_GAS_LIMIT env)
      else 50000)"

definition getETHBalance :: "eth_env \<Rightarrow> Wallet \<Rightarrow> nat or_string" where
  "getETHBalance env wallet =
     (case getBalance env wallet of
        Inr balance \<Rightarrow> Value (balance div 10 ^ 18)
      | Inl err \<Rightarrow> Str (reason_or err ''error ETH balance lookup''))"

definition approveERC20 ::
  "eth_env \<Rightarrow> Wallet \<Rightarrow> string \<Rightarrow> string \<Rightarrow> string \<Rightarrow> nat \<Rightarrow> TransactionResponse or_string" where
  "approveERC20 env wallet spender tokenAddress amt gwei =
     (case approve env wallet tokenAddress spender amt
             \<lparr> gasPrice = gwei * 10 ^ 9, gasLimit = APPROVAL_GAS_LIMIT env \<rparr> of
        Inr tx \<Rightarrow> Value tx
      | Inl err \<Rightarrow> Str (reason_or err ''error approval''))"

text \<open>
  \<open>this.erc20TokenList === {}\<close> compares the list with an object made on the spot, and
  no object is identical to that one.
\<close>

definition is_fresh_object :: "TokenList \<Rightarrow> bool" where
  "is_fresh_object l = False"

text \<open>\<open>getERC20TokenList\<close>: the instance after the call, and the string returned from the
  \<open>catch\<close> block (\<open>None\<close> when the function ends without a \<open>return\<close>).\<close>

definition getERC20TokenList :: "eth_env \<Rightarrow> Ethereum \<Rightarrow> Ethereum \<times> string option" where
  "getERC20TokenList env this =
     (if ethNetwork this = ''kovan'' then
        (case readTokenFile env of
           Inr l \<Rightarrow> (this \<lparr> erc20TokenList := l \<rparr>, None)
         | Inl err \<Rightarrow> (this, Some (reason_or err ''error ERC 20 Token List'')))
      else if ethNetwork this = ''mainnet'' then
        (if is_fresh_object (erc20TokenList this) then
           (case axiosGet env (erc20TokenListURL this) of
              Inr (code, Some l) \<Rightarrow>
                (if code = 200 then (this \<lparr> erc20TokenList := l \<rparr>, None) else (this, None))
            | Inr (code, None) \<Rightarrow> (this, None)
            | Inl err \<Rightarrow> (this, Some (reason_or err ''error ERC 20 Token List'')))
         else (this, None))
      else
        (this, Some (reason_or (Error (''Invalid network '' @ ethNetwork this) None)
                       ''error ERC 20 Token List'')))"

text \<open>\<open>constructor(network = 'mainnet')\<close>: the class fields, then the token list.\<close>

definition Ethereum_constructor :: "eth_env \<Rightarrow> string option \<Rightarrow> Ethereum" where
  "Ethereum_constructor env arg =
     fst (getERC20TokenList env
            \<lparr> ethNetwork = (case arg of None \<Rightarrow> ''mainnet'' | Some n \<Rightarrow> n),
              erc20TokenListURL = ETHEREUM_TOKEN_LIST_URL env,
              erc20TokenList = \<lparr> tokens = None \<rparr> \<rparr>)"

text \<open>
  \<open>String.prototype.toUpperCase\<close> belongs to the JavaScript runtime and maps every
  letter that has an upper-case form, ASCII or not; it is a parameter of the lookups.
  A string is the list of the bytes of its UTF-8 text.
\<close>

record js_runtime =
  toUpperCase :: "string \<Rightarrow> string"

text \<open>\<open>xs.filter(f)[0]\<close>: the first element that passes, \<open>undefined\<close> when none does.\<close>

definition first_match :: "('a \<Rightarrow> bool) \<Rightarrow> 'a list \<Rightarrow> 'a option" where
  "first_match f xs = (case filter f xs of [] \<Rightarrow> None | x # _ \<Rightarrow> Some x)"

definition getERC20TokenAddresses ::
  "js_runtime \<Rightarrow> Ethereum \<Rightarrow> string \<Rightarrow> error + TokenInfo option" where
  "getERC20TokenAddresses js this tokenSymbol =
     (case tokens (erc20TokenList this) of
        None \<Rightarrow> Inl TypeError
      | Some ts \<Rightarrow>
          Inr (first_match (\<lambda>obj. symbol obj = toUpperCase js tokenSymbol) ts))"

definition getERC20TokenByAddress ::
  "js_runtime \<Rightarrow> Ethereum \<Rightarrow> string \<Rightarrow> error + TokenInfo option" where
  "getERC20TokenByAddress js this tokenAddress =
     (case tokens (erc20TokenList this) of
        None \<Rightarrow> Inl TypeError
      | Some ts \<Rightarrow>
          Inr (first_match
                 (\<lambda>obj. toUpperCase js (address obj) = toUpperCase js tokenAddress) ts))"

section \<open>The routes \<open>/approve\<close> and \<open>/poll\<close>\<close>

record eth_config =
  networkName :: string
  spenders :: "string \<Rightarrow> string option"



definition latency :: "int \<Rightarrow> int \<Rightarrow> rat" where
  "latency startTime endTime = of_int (endTime - startTime) / 1000"









subsection \<open>Polling\<close>

text \<open>The receipts the node holds, by transaction hash.\<close>

type_synonym node = "string \<rightharpoonup> TransactionReceipt"

text \<open>
  Modelled from the spec: \<open>getTransactionReceipt\<close> of the service behind the routes,
  which is not part of the sources. Section 3: a receipt is "created only after the node
  confirms inclusion; absent (nil) while pending".
\<close>

definition getTransactionReceipt :: "node \<Rightarrow> string \<Rightarrow> TransactionReceipt option" where
  "getTransactionReceipt nd h = nd h"

text \<open>
  Modelled from the spec: how the node's receipts change between two polls. Section 4.4:
  "receipts are immutable once produced". A step includes one pending transaction in a
  block; the genesis block, number 0, holds no transaction.
\<close>

inductive node_step :: "node \<Rightarrow> node \<Rightarrow> bool" where
  mined: "nd h = None \<Longrightarrow> transactionHash r = h \<Longrightarrow> 0 < blockNumber r
              \<Longrightarrow> node_step nd (nd(h \<mapsto> r))"

record poll_body =
  txHash :: string

record poll_json =
  pNetwork :: string
  pTimestamp :: int
  pLatency :: rat
  pTxHash :: string
  confirmed :: bool
  receipt :: "TransactionReceipt option"

text \<open>The handler of \<open>/poll\<close>; the object \<open>{}\<close> sent in place of a receipt is \<open>None\<close>.\<close>

definition poll_route :: "eth_config \<Rightarrow> node \<Rightarrow> poll_body \<Rightarrow> int \<Rightarrow> int \<Rightarrow> poll_json" where
  "poll_route cfg nd body initTime endTime =
     (let rcpt = getTransactionReceipt nd (txHash body);
          conf = (case rcpt of None \<Rightarrow> False | Some r \<Rightarrow> blockNumber r \<noteq> 0)
      in \<lparr> pNetwork = networkName cfg,
           pTimestamp = initTime,
           pLatency = latency initTime endTime,
           pTxHash = txHash body,
           confirmed = conf,
           receipt = (if conf then rcpt else None) \<rparr>)"

section \<open>Concrete inputs\<close>

definition DAI :: Token where
  "DAI = \<lparr> tokChainId = KOVAN, tokAddress = ''0xdai'', tokSymbol = ''DAI'', tokDecimals = 18 \<rparr>"

definition BAT :: Token where
  "BAT = \<lparr> tokChainId = KOVAN, tokAddress = ''0xbat'', tokSymbol = ''BAT'', tokDecimals = 18 \<rparr>"

definition WETH9 :: Token where
  "WETH9 = \<lparr> tokChainId = KOVAN, tokAddress = ''0xweth'', tokSymbol = ''WETH'', tokDecimals = 18 \<rparr>"

definition kovan_penv :: process_env where
  "kovan_penv = \<lparr> ETHEREUM_RPC_URL = Some ''http://localhost:8545'',
                  ETHEREUM_CHAIN = Some ''kovan'',
                  UNISWAP_ROUTER = Some ''0xrouter'' \<rparr>"

definition kovan_uniswap :: Uniswap where
  "kovan_uniswap = \<lparr> network = Some ''kovan'', chainID = KOVAN,
                     providerUrl = Some ''http://localhost:8545'',
                     router = Some ''0xrouter'',
                     allowedSlippage = \<lparr> numerator = 0, denominator = 100 \<rparr> \<rparr>"

definition tokenOf :: "ChainId \<Rightarrow> string \<Rightarrow> error + Token" where
  "tokenOf c a =
     (if a = ''0xdai'' then Inr DAI
      else if a = ''0xbat'' then Inr BAT
      else Inl (Error ''unknown token'' None))"

text \<open>An environment over given pools and a given answer of the router contract; the
  counter-amount of every trade is twice the fixed amount.\<close>

definition example_env ::
  "(Token \<Rightarrow> Token \<Rightarrow> error + nat \<times> nat) \<Rightarrow> (error + TransactionResponse) \<Rightarrow> uni_env" where
  "example_env pools answer =
     \<lparr> fetchTokenData = tokenOf,
       getReserves = pools,
       WETH = (\<lambda>c. WETH9),
       counterAmount = (\<lambda>rt dir tok a. Inr (2 * a)),
       currentTime = 1600000000,
       contractCall = (\<lambda>w r c ov. answer) \<rparr>"

definition all_pools :: "Token \<Rightarrow> Token \<Rightarrow> error + nat \<times> nat" where
  "all_pools a b = Inr (1000000, 2000000)"

definition bridge_pools :: "Token \<Rightarrow> Token \<Rightarrow> error + nat \<times> nat" where
  "bridge_pools a b =
     (if b = WETH9 then Inr (1000000, 2000000) else Inl (Error ''no pool'' None))"

definition no_pools :: "Token \<Rightarrow> Token \<Rightarrow> error + nat \<times> nat" where
  "no_pools a b =
     (if b = WETH9 then Inl (Error ''timeout'' (Some ''timeout''))
      else Inl (Error ''no pool'' None))"

definition rejected :: "error + TransactionResponse" where
  "rejected = Inl (Error ''insufficient funds'' (Some ''insufficient funds''))"

definition alice :: Wallet where
  "alice = \<lparr> walletAddress = ''0xalice'' \<rparr>"

definition dai_bat :: Route where
  "dai_bat = \<lparr> pairs = [\<lparr> assetA = DAI, assetB = BAT, reserveA = 1000000, reserveB = 2000000 \<rparr>],
               path = [DAI, BAT], inputAsset = DAI, outputAsset = BAT \<rparr>"

definition receipt7 :: TransactionReceipt where
  "receipt7 = \<lparr> transactionHash = ''0xabc'', blockNumber = 7, status = True \<rparr>"

definition mined_tx :: TransactionResponse where
  "mined_tx = \<lparr> hash = ''0xabc'', wait = Inr receipt7 \<rparr>"

definition failed_tx :: TransactionResponse where
  "failed_tx = \<lparr> hash = ''0xabc'',
                 wait = Inl (Error ''transaction failed'' (Some ''transaction failed'')) \<rparr>"

text \<open>Modelled from the spec: the error \<open>NoLiquidity\<close> of section 7, "surfaced to caller
  as "no route found"". Nothing in the sources makes such a value.\<close>

definition NoLiquidity :: error where
  "NoLiquidity = Error ''no route found'' None"

definition kovan_list :: TokenList where
  "kovan_list = \<lparr> tokens = Some [\<lparr> symbol = ''DAI'', address = ''0xAbC1'', decimals = 18 \<rparr>,
                                  \<lparr> symbol = ''cDAI'', address = ''0xdeF2'', decimals = 8 \<rparr>] \<rparr>"

text \<open>An environment whose node cannot be reached and whose token file is
  \<open>kovan_list\<close>.\<close>

definition offline_eth :: eth_env where
  "offline_eth =
     \<lparr> ETHEREUM_TOKEN_LIST_URL = Some ''https://tokens.example/list.json'',
       ETH_APPROVAL_GAS_LIMIT = None,
       getBalance = (\<lambda>w. Inl (Error ''could not detect network'' None)),
       approve = (\<lambda>w t s a ov. Inl (Error ''insufficient funds'' (Some ''insufficient funds''))),
       readTokenFile = Inr kovan_list,
       axiosGet = (\<lambda>u. Inr (200, Some kovan_list)) \<rparr>"

definition example_config :: eth_config where
  "example_config =
     \<lparr> networkName = ''kovan'',
       spenders = (\<lambda>c. if c = ''uniswap'' then Some ''0xrouter'' else None) \<rparr>"




text \<open>
  The lower-case letters of ASCII and their upper-case forms, and a runtime for strings
  of ASCII characters, which the strings of the examples are: on them \<open>toUpperCase\<close>
  turns \<open>a\<close> to \<open>z\<close> into \<open>A\<close> to \<open>Z\<close> and leaves every other character.
\<close>

definition is_lower :: "char \<Rightarrow> bool" where
  "is_lower c = (97 \<le> (of_char c :: nat) \<and> (of_char c :: nat) \<le> 122)"

definition upper_char :: "char \<Rightarrow> char" where
  "upper_char c = (if is_lower c then char_of ((of_char c :: nat) - 32) else c)"

definition ascii_runtime :: js_runtime where
  "ascii_runtime = \<lparr> toUpperCase = map upper_char \<rparr>"

text \<open>A receipt that names no block, and a node that holds it.\<close>

definition receipt0 :: TransactionReceipt where
  "receipt0 = \<lparr> transactionHash = ''0x123'', blockNumber = 0, status = False \<rparr>"

definition blockless :: node where
  "blockless = [''0x123'' \<mapsto> receipt0]"

definition one_receipt :: node where
  "one_receipt = [''0xabc'' \<mapsto> receipt7]"

definition receipt9 :: TransactionReceipt where
  "receipt9 = \<lparr> transactionHash = ''0xdef'', blockNumber = 9, status = False \<rparr>"

section \<open>Properties of the swap engine\<close>

lemmas ex_defs = example_env_def tokenOf_def kovan_uniswap_def DAI_def BAT_def WETH9_def
  fetchPairData_def

lemma walk_direct:
  "walk a [\<lparr> assetA = a, assetB = b, reserveA = ra, reserveB = rb \<rparr>] = Inr [a, b]"
  by simp

lemma walk_bridge:
  "walk a [\<lparr> assetA = a, assetB = w, reserveA = ra, reserveB = rb \<rparr>,
           \<lparr> assetA = b, assetB = w, reserveA = rc, reserveB = rd \<rparr>] = Inr [a, w, b]"
  by simp

lemma fetchPairData_Inr:
  "fetchPairData env a b = Inr p \<Longrightarrow> assetA p = a \<and> assetB p = b"
  by (auto simp: fetchPairData_def split: sum.splits prod.splits)

lemma direct_route_Inr:
  "fetchPairData env a b = Inr p \<Longrightarrow>
   direct_route env a b = Inr \<lparr> pairs = [p], path = [a, b], inputAsset = a, outputAsset = b \<rparr>"
  by (auto simp: direct_route_def fetchPairData_def newRoute_def split: sum.splits prod.splits)

lemma direct_route_Inl:
  "fetchPairData env a b = Inl e \<Longrightarrow> direct_route env a b = Inl e"
  by (simp add: direct_route_def)

lemma indirect_route_Inr:
  "fetchPairData env a (WETH env (chainID this)) = Inr p1 \<Longrightarrow>
   fetchPairData env b (WETH env (chainID this)) = Inr p2 \<Longrightarrow>
   indirect_route env this a b =
     Inr \<lparr> pairs = [p1, p2], path = [a, WETH env (chainID this), b],
           inputAsset = a, outputAsset = b \<rparr>"
  by (auto simp: indirect_route_def fetchPairData_def newRoute_def split: sum.splits prod.splits)

text \<open>
  C5: constructing the engine with a network argument other than \<open>'kovan'\<close> and
  \<open>'mainnet'\<close> throws the invalid-network error; with \<open>'kovan'\<close> or \<open>'mainnet'\<close> (or
  with no argument, which stands for \<open>'kovan'\<close>) it succeeds with the chain id of that
  network. The error is the constructor's own result, so no instance exists on which an
  operation could run.
\<close>

theorem constructor_network:
  "(n \<noteq> ''kovan'' \<and> n \<noteq> ''mainnet'' \<longrightarrow>
      constructor penv (Some n) = Inl (Error (''Invalid network '' @ n) None))
   \<and> map_sum id chainID (constructor penv (Some ''kovan'')) = Inr KOVAN
   \<and> map_sum id chainID (constructor penv (Some ''mainnet'')) = Inr MAINNET
   \<and> map_sum id chainID (constructor penv None) = Inr KOVAN"
  by (simp add: constructor_def)

theorem constructor_network_witness:
  "''ropsten'' \<noteq> ''kovan'' \<and> ''ropsten'' \<noteq> ''mainnet''
   \<and> constructor kovan_penv (Some ''ropsten'') = Inl (Error ''Invalid network ropsten'' None)"
  using constructor_network [of "''ropsten''" kovan_penv] by simp

text \<open>
  C2: once both assets are resolved, a direct pool gives the single-hop route over that
  pool, and the bridge is not tried; when the direct fetch fails and the two legs
  (input, WETH) and (output, WETH) are found, the result is the two-hop route over these
  two pairs whose path is input, WETH, output, with WETH the asset both pairs share. A
  route that is returned never has more than two hops, and it has two only when the
  direct fetch failed.
\<close>

theorem fetch_route_direct_then_bridge:
  assumes tin: "fetchTokenData env (chainID this) tokenIn = Inr tIn"
      and tout: "fetchTokenData env (chainID this) tokenOut = Inr tOut"
  shows "(\<forall>pair. fetchPairData env tIn tOut = Inr pair \<longrightarrow>
            fetch_route env this tokenIn tokenOut =
              Inr \<lparr> pairs = [pair], path = [tIn, tOut],
                    inputAsset = tIn, outputAsset = tOut \<rparr>)
       \<and> (\<forall>e p1 p2. fetchPairData env tIn tOut = Inl e \<longrightarrow>
            fetchPairData env tIn (WETH env (chainID this)) = Inr p1 \<longrightarrow>
            fetchPairData env tOut (WETH env (chainID this)) = Inr p2 \<longrightarrow>
            fetch_route env this tokenIn tokenOut =
              Inr \<lparr> pairs = [p1, p2], path = [tIn, WETH env (chainID this), tOut],
                    inputAsset = tIn, outputAsset = tOut \<rparr>
            \<and> assetB p1 = WETH env (chainID this) \<and> assetB p2 = WETH env (chainID this))
       \<and> (\<forall>r. fetch_route env this tokenIn tokenOut = Inr r \<longrightarrow>
            length (pairs r) \<le> 2
            \<and> (length (pairs r) = 2 \<longrightarrow> (\<exists>e. fetchPairData env tIn tOut = Inl e)))"
proof (intro conjI allI impI)
  fix pair assume "fetchPairData env tIn tOut = Inr pair"
  then show "fetch_route env this tokenIn tokenOut =
      Inr \<lparr> pairs = [pair], path = [tIn, tOut], inputAsset = tIn, outputAsset = tOut \<rparr>"
    using tin tout by (simp add: fetch_route_def direct_route_Inr)
next
  fix e p1 p2
  assume d: "fetchPairData env tIn tOut = Inl e"
     and l1: "fetchPairData env tIn (WETH env (chainID this)) = Inr p1"
     and l2: "fetchPairData env tOut (WETH env (chainID this)) = Inr p2"
  show "fetch_route env this tokenIn tokenOut =
      Inr \<lparr> pairs = [p1, p2], path = [tIn, WETH env (chainID this), tOut],
            inputAsset = tIn, outputAsset = tOut \<rparr>"
    using tin tout by (simp add: fetch_route_def direct_route_Inl [OF d] indirect_route_Inr [OF l1 l2])
  show "assetB p1 = WETH env (chainID this)" using fetchPairData_Inr [OF l1] by simp
  show "assetB p2 = WETH env (chainID this)" using fetchPairData_Inr [OF l2] by simp
next
  fix r assume r: "fetch_route env this tokenIn tokenOut = Inr r"
  show "length (pairs r) \<le> 2"
  proof (cases "fetchPairData env tIn tOut")
    case (Inr pair)
    with r tin tout show ?thesis by (auto simp: fetch_route_def direct_route_Inr)
  next
    case (Inl e)
    with r tin tout have "indirect_route env this tIn tOut = Inr r"
      by (simp add: fetch_route_def direct_route_Inl)
    then show ?thesis
      by (auto simp: indirect_route_def newRoute_def split: sum.splits if_splits)
  qed
next
  fix r assume r: "fetch_route env this tokenIn tokenOut = Inr r"
     and two: "length (pairs r) = 2"
  show "\<exists>e. fetchPairData env tIn tOut = Inl e"
  proof (cases "fetchPairData env tIn tOut")
    case (Inr pair)
    with r tin tout two show ?thesis by (auto simp: fetch_route_def direct_route_Inr)
  next
    case (Inl e)
    then show ?thesis by blast
  qed
qed

theorem fetch_route_direct_then_bridge_witness:
  "fetchTokenData (example_env bridge_pools rejected) (chainID kovan_uniswap) ''0xdai'' = Inr DAI
   \<and> fetchTokenData (example_env bridge_pools rejected) (chainID kovan_uniswap) ''0xbat'' = Inr BAT
   \<and> fetchPairData (example_env bridge_pools rejected) DAI BAT = Inl (Error ''no pool'' None)
   \<and> map_sum id path (fetch_route (example_env bridge_pools rejected) kovan_uniswap ''0xdai'' ''0xbat'')
       = Inr [DAI, WETH9, BAT]"
proof -
  let ?env = "example_env bridge_pools rejected"
  have h1: "fetchTokenData ?env (chainID kovan_uniswap) ''0xdai'' = Inr DAI"
    by (simp add: example_env_def tokenOf_def)
  have h2: "fetchTokenData ?env (chainID kovan_uniswap) ''0xbat'' = Inr BAT"
    by (simp add: example_env_def tokenOf_def)
  have d: "fetchPairData ?env DAI BAT = Inl (Error ''no pool'' None)"
    by (simp add: ex_defs bridge_pools_def)
  have l1: "fetchPairData ?env DAI (WETH ?env (chainID kovan_uniswap))
              = Inr \<lparr> assetA = DAI, assetB = WETH9, reserveA = 1000000, reserveB = 2000000 \<rparr>"
    by (simp add: ex_defs bridge_pools_def)
  have l2: "fetchPairData ?env BAT (WETH ?env (chainID kovan_uniswap))
              = Inr \<lparr> assetA = BAT, assetB = WETH9, reserveA = 1000000, reserveB = 2000000 \<rparr>"
    by (simp add: ex_defs bridge_pools_def)
  have w: "WETH ?env (chainID kovan_uniswap) = WETH9" by (simp add: example_env_def)
  from fetch_route_direct_then_bridge [OF h1 h2] d l1 l2
  have "fetch_route ?env kovan_uniswap ''0xdai'' ''0xbat'' =
          Inr \<lparr> pairs = [\<lparr> assetA = DAI, assetB = WETH9, reserveA = 1000000, reserveB = 2000000 \<rparr>,
                         \<lparr> assetA = BAT, assetB = WETH9, reserveA = 1000000, reserveB = 2000000 \<rparr>],
                path = [DAI, WETH ?env (chainID kovan_uniswap), BAT],
                inputAsset = DAI, outputAsset = BAT \<rparr>"
    by blast
  with h1 h2 d w show ?thesis by simp
qed

text \<open>
  C3, as the specification states it, fails: with no direct pool and a first bridge leg
  whose fetch is rejected with a timeout, \<open>fetch_route\<close> is rejected with that very
  timeout error, which is not \<open>NoLiquidity\<close>.
\<close>

theorem fetch_route_no_liquidity_counterexample:
  "fetchPairData (example_env no_pools rejected) DAI BAT = Inl (Error ''no pool'' None)
   \<and> fetchPairData (example_env no_pools rejected) DAI WETH9
       = Inl (Error ''timeout'' (Some ''timeout''))
   \<and> fetch_route (example_env no_pools rejected) kovan_uniswap ''0xdai'' ''0xbat''
       = Inl (Error ''timeout'' (Some ''timeout''))
   \<and> fetch_route (example_env no_pools rejected) kovan_uniswap ''0xdai'' ''0xbat''
       \<noteq> Inl NoLiquidity"
  by (simp add: ex_defs no_pools_def fetch_route_def direct_route_def indirect_route_def NoLiquidity_def)

text \<open>
  C3, amended: when the direct fetch fails and a bridge leg fails, \<open>fetch_route\<close> fails
  with the error of the failing leg as it is, the (input, WETH) leg first; the error of
  the direct fetch is dropped.
\<close>

theorem fetch_route_propagates:
  assumes tin: "fetchTokenData env (chainID this) tokenIn = Inr tIn"
      and tout: "fetchTokenData env (chainID this) tokenOut = Inr tOut"
      and direct: "fetchPairData env tIn tOut = Inl e0"
  shows "(\<forall>e1. fetchPairData env tIn (WETH env (chainID this)) = Inl e1 \<longrightarrow>
            fetch_route env this tokenIn tokenOut = Inl e1)
       \<and> (\<forall>p1 e2. fetchPairData env tIn (WETH env (chainID this)) = Inr p1 \<longrightarrow>
            fetchPairData env tOut (WETH env (chainID this)) = Inl e2 \<longrightarrow>
            fetch_route env this tokenIn tokenOut = Inl e2)"
  using tin tout direct_route_Inl [OF direct]
  by (simp add: fetch_route_def indirect_route_def)

theorem fetch_route_propagates_witness:
  "fetchTokenData (example_env no_pools rejected) (chainID kovan_uniswap) ''0xdai'' = Inr DAI
   \<and> fetchTokenData (example_env no_pools rejected) (chainID kovan_uniswap) ''0xbat'' = Inr BAT
   \<and> fetchPairData (example_env no_pools rejected) DAI BAT = Inl (Error ''no pool'' None)
   \<and> fetchPairData (example_env no_pools rejected) DAI
        (WETH (example_env no_pools rejected) (chainID kovan_uniswap))
       = Inl (Error ''timeout'' (Some ''timeout''))
   \<and> fetch_route (example_env no_pools rejected) kovan_uniswap ''0xdai'' ''0xbat''
       = Inl (Error ''timeout'' (Some ''timeout''))"
proof -
  let ?env = "example_env no_pools rejected"
  have h1: "fetchTokenData ?env (chainID kovan_uniswap) ''0xdai'' = Inr DAI"
    by (simp add: example_env_def tokenOf_def)
  have h2: "fetchTokenData ?env (chainID kovan_uniswap) ''0xbat'' = Inr BAT"
    by (simp add: example_env_def tokenOf_def)
  have d: "fetchPairData ?env DAI BAT = Inl (Error ''no pool'' None)"
    by (simp add: ex_defs no_pools_def)
  have l1: "fetchPairData ?env DAI (WETH ?env (chainID kovan_uniswap))
              = Inl (Error ''timeout'' (Some ''timeout''))"
    by (simp add: ex_defs no_pools_def)
  from fetch_route_propagates [OF h1 h2 d] l1
  have "fetch_route ?env kovan_uniswap ''0xdai'' ''0xbat'' = Inl (Error ''timeout'' (Some ''timeout''))"
    by blast
  with h1 h2 d l1 show ?thesis by simp
qed

lemmas swap_defs = swapExactIn_def swapExactOut_def swapExactIn_result_def
  swapExactOut_result_def exactIn_def exactOut_def swapCallParameters_def boundAmount_def

text \<open>
  C1, as the specification states it, fails: the router contract accepts the transaction
  and answers with the hash \<open>0xabc\<close>, and \<open>swapExactIn\<close> returns the receipt of block 7;
  when waiting for the receipt is rejected, \<open>swapExactOut\<close> is rejected with it, although
  the node had accepted the transaction.
\<close>

theorem swap_returns_handle_counterexample:
  "(case swapExactIn_result (example_env all_pools (Inr mined_tx)) kovan_uniswap alice dai_bat
           ''0xdai'' 1000 of
      Inl e \<Rightarrow> Inl e
    | Inr result \<Rightarrow>
        map_sum id hash
          (contractCall (example_env all_pools (Inr mined_tx)) alice (router kovan_uniswap) result
             \<lparr> gasPrice = 5 * 10 ^ 9, gasLimit = GAS_LIMIT, txValue = nativeValue result \<rparr>))
     = Inr ''0xabc''
   \<and> swapExactIn (example_env all_pools (Inr mined_tx)) kovan_uniswap alice dai_bat
        ''0xdai'' 1000 5 = Inr receipt7
   \<and> blockNumber receipt7 = 7
   \<and> (case swapExactOut_result (example_env all_pools (Inr failed_tx)) kovan_uniswap alice dai_bat
           ''0xbat'' 1000 of
      Inl e \<Rightarrow> Inl e
    | Inr result \<Rightarrow>
        map_sum id hash
          (contractCall (example_env all_pools (Inr failed_tx)) alice (router kovan_uniswap) result
             \<lparr> gasPrice = 5 * 10 ^ 9, gasLimit = GAS_LIMIT, txValue = nativeValue result \<rparr>))
     = Inr ''0xabc''
   \<and> swapExactOut (example_env all_pools (Inr failed_tx)) kovan_uniswap alice dai_bat
        ''0xbat'' 1000 5 = Inl (Error ''transaction failed'' (Some ''transaction failed''))"
  by (simp add: ex_defs swap_defs mined_tx_def failed_tx_def receipt7_def)

text \<open>
  C1, amended: once the call is built and the router contract has accepted it, both
  \<open>swapExactIn\<close> and \<open>swapExactOut\<close> end as \<open>tx.wait()\<close> ends; what either returns is
  the receipt that the wait resolved to, never the hash.
\<close>

theorem swap_returns_receipt:
  "(\<forall>result tx. swapExactIn_result env this w rt a amt = Inr result \<longrightarrow>
       contractCall env w (router this) result
         \<lparr> gasPrice = g * 10 ^ 9, gasLimit = GAS_LIMIT, txValue = nativeValue result \<rparr> = Inr tx \<longrightarrow>
       swapExactIn env this w rt a amt g = wait tx)
   \<and> (\<forall>result tx. swapExactOut_result env this w rt a amt = Inr result \<longrightarrow>
       contractCall env w (router this) result
         \<lparr> gasPrice = g * 10 ^ 9, gasLimit = GAS_LIMIT, txValue = nativeValue result \<rparr> = Inr tx \<longrightarrow>
       swapExactOut env this w rt a amt g = wait tx)
   \<and> (\<forall>txObj. swapExactIn env this w rt a amt g = Inr txObj \<longrightarrow>
       (\<exists>result tx. swapExactIn_result env this w rt a amt = Inr result
          \<and> contractCall env w (router this) result
              \<lparr> gasPrice = g * 10 ^ 9, gasLimit = GAS_LIMIT, txValue = nativeValue result \<rparr> = Inr tx
          \<and> wait tx = Inr txObj))
   \<and> (\<forall>txObj. swapExactOut env this w rt a amt g = Inr txObj \<longrightarrow>
       (\<exists>result tx. swapExactOut_result env this w rt a amt = Inr result
          \<and> contractCall env w (router this) result
              \<lparr> gasPrice = g * 10 ^ 9, gasLimit = GAS_LIMIT, txValue = nativeValue result \<rparr> = Inr tx
          \<and> wait tx = Inr txObj))"
  by (auto simp: swapExactIn_def swapExactOut_def split: sum.splits)


theorem swap_returns_receipt_witness:
  "swapExactIn (example_env all_pools (Inr mined_tx)) kovan_uniswap alice dai_bat ''0xdai'' 1000 5
     = Inr receipt7
   \<and> swapExactOut (example_env all_pools (Inr failed_tx)) kovan_uniswap alice dai_bat ''0xbat'' 1000 5
     = Inl (Error ''transaction failed'' (Some ''transaction failed''))"
proof -
  let ?m = "example_env all_pools (Inr mined_tx)" and ?f = "example_env all_pools (Inr failed_tx)"
  obtain ri where ri: "swapExactIn_result ?m kovan_uniswap alice dai_bat ''0xdai'' 1000 = Inr ri"
    by (simp add: ex_defs swap_defs)
  obtain ro where ro: "swapExactOut_result ?f kovan_uniswap alice dai_bat ''0xbat'' 1000 = Inr ro"
    by (simp add: ex_defs swap_defs)
  have ci: "contractCall ?m alice (router kovan_uniswap) ri
              \<lparr> gasPrice = 5 * 10 ^ 9, gasLimit = GAS_LIMIT, txValue = nativeValue ri \<rparr> = Inr mined_tx"
    by (simp add: example_env_def)
  have co: "contractCall ?f alice (router kovan_uniswap) ro
              \<lparr> gasPrice = 5 * 10 ^ 9, gasLimit = GAS_LIMIT, txValue = nativeValue ro \<rparr> = Inr failed_tx"
    by (simp add: example_env_def)
  from swap_returns_receipt [of ?m kovan_uniswap alice dai_bat "''0xdai''" 1000 5] ri ci
  have a: "swapExactIn ?m kovan_uniswap alice dai_bat ''0xdai'' 1000 5 = wait mined_tx"
    by blast
  from swap_returns_receipt [of ?f kovan_uniswap alice dai_bat "''0xbat''" 1000 5] ro co
  have b: "swapExactOut ?f kovan_uniswap alice dai_bat ''0xbat'' 1000 5 = wait failed_tx"
    by blast
  from a b show ?thesis by (simp add: mined_tx_def failed_tx_def)
qed

text \<open>
  C6: the deadline in the call built by \<open>swapExactIn\<close> and by \<open>swapExactOut\<close> is the
  current time plus 60 seconds, and nothing after the building looks at it: the function
  ends as the contract call and the wait for its receipt end.
\<close>

theorem swap_deadline:
  "(\<forall>c. swapExactIn_result env this w rt a amt = Inr c \<longrightarrow>
       deadline (args c) = currentTime env + 60
       \<and> swapExactIn env this w rt a amt g =
           (case contractCall env w (router this) c
                   \<lparr> gasPrice = g * 10 ^ 9, gasLimit = GAS_LIMIT, txValue = nativeValue c \<rparr> of
              Inl e \<Rightarrow> Inl e
            | Inr tx \<Rightarrow> wait tx))
   \<and> (\<forall>c. swapExactOut_result env this w rt a amt = Inr c \<longrightarrow>
       deadline (args c) = currentTime env + 60
       \<and> swapExactOut env this w rt a amt g =
           (case contractCall env w (router this) c
                   \<lparr> gasPrice = g * 10 ^ 9, gasLimit = GAS_LIMIT, txValue = nativeValue c \<rparr> of
              Inl e \<Rightarrow> Inl e
            | Inr tx \<Rightarrow> wait tx))"
  by (auto simp: swapExactIn_def swapExactOut_def swapExactIn_result_def swapExactOut_result_def
        swapCallParameters_def TTL_def split: sum.splits)

theorem swap_deadline_witness:
  "map_sum id (\<lambda>c. deadline (args c))
     (swapExactIn_result (example_env all_pools rejected) kovan_uniswap alice dai_bat ''0xdai'' 1000)
     = Inr 1600000060
   \<and> map_sum id (\<lambda>c. deadline (args c))
     (swapExactOut_result (example_env all_pools rejected) kovan_uniswap alice dai_bat ''0xbat'' 1000)
     = Inr 1600000060"
proof -
  let ?e = "example_env all_pools rejected"
  obtain ri where ri: "swapExactIn_result ?e kovan_uniswap alice dai_bat ''0xdai'' 1000 = Inr ri"
    by (simp add: ex_defs swap_defs)
  obtain ro where ro: "swapExactOut_result ?e kovan_uniswap alice dai_bat ''0xbat'' 1000 = Inr ro"
    by (simp add: ex_defs swap_defs)
  from swap_deadline [of ?e kovan_uniswap alice dai_bat "''0xdai''" 1000 5] ri
  have a: "deadline (args ri) = currentTime ?e + 60" by blast
  from swap_deadline [of ?e kovan_uniswap alice dai_bat "''0xbat''" 1000 5] ro
  have b: "deadline (args ro) = currentTime ?e + 60" by blast
  from a b ri ro show ?thesis by (simp add: example_env_def)
qed

text \<open>
  C7: an engine made by the constructor has the tolerance 0/100, and with it the bound in
  the built call is the counter-amount itself, the minimum output of an ExactIn trade as
  well as the maximum input of an ExactOut trade.
\<close>

theorem zero_slippage_bound:
  assumes built: "constructor penv arg = Inr this"
  shows "allowedSlippage this = \<lparr> numerator = 0, denominator = 100 \<rparr>
       \<and> (\<forall>tIn k. fetchTokenData env (chainID this) a = Inr tIn \<longrightarrow>
            counterAmount env rt EXACT_INPUT tIn amt = Inr k \<longrightarrow>
            map_sum id (\<lambda>c. amountBound (args c)) (swapExactIn_result env this w rt a amt) = Inr k)
       \<and> (\<forall>tOut k. fetchTokenData env (chainID this) a = Inr tOut \<longrightarrow>
            counterAmount env rt EXACT_OUTPUT tOut amt = Inr k \<longrightarrow>
            map_sum id (\<lambda>c. amountBound (args c)) (swapExactOut_result env this w rt a amt) = Inr k)"
proof -
  from built have s: "allowedSlippage this = \<lparr> numerator = 0, denominator = 100 \<rparr>"
    by (auto simp: constructor_def Let_def split: if_splits)
  have b: "boundAmount \<lparr> numerator = 0, denominator = 100 \<rparr> dir k = k" for dir k
    by (cases dir) (simp_all add: boundAmount_def)
  show ?thesis
    by (simp add: s b swapExactIn_result_def swapExactOut_result_def exactIn_def exactOut_def
          swapCallParameters_def)
qed

theorem zero_slippage_bound_witness:
  "constructor kovan_penv (Some ''kovan'') = Inr kovan_uniswap
   \<and> counterAmount (example_env all_pools rejected) dai_bat EXACT_INPUT DAI 1000 = Inr 2000
   \<and> map_sum id (\<lambda>c. amountBound (args c))
       (swapExactIn_result (example_env all_pools rejected) kovan_uniswap alice dai_bat ''0xdai'' 1000)
       = Inr 2000"
proof -
  let ?e = "example_env all_pools rejected"
  have c: "constructor kovan_penv (Some ''kovan'') = Inr kovan_uniswap"
    by (simp add: constructor_def kovan_penv_def kovan_uniswap_def)
  have t: "fetchTokenData ?e (chainID kovan_uniswap) ''0xdai'' = Inr DAI"
    by (simp add: example_env_def tokenOf_def)
  have k: "counterAmount ?e dai_bat EXACT_INPUT DAI 1000 = Inr 2000"
    by (simp add: example_env_def)
  from zero_slippage_bound [OF c, of ?e "''0xdai''" dai_bat 1000 alice] t k
  have "map_sum id (\<lambda>c. amountBound (args c))
          (swapExactIn_result ?e kovan_uniswap alice dai_bat ''0xdai'' 1000) = Inr 2000"
    by blast
  with c k show ?thesis by simp
qed

section \<open>Properties of the Ethereum service and of the routes\<close>

lemma not_lower_upper: "\<not> is_lower (upper_char c)"
  by (auto simp: is_lower_def upper_char_def)

lemma first_match_Some: "first_match f xs = Some x \<Longrightarrow> x \<in> set xs \<and> f x"
proof -
  assume a: "first_match f xs = Some x"
  then obtain ys where "filter f xs = x # ys"
    by (auto simp: first_match_def split: list.splits)
  then have "x \<in> set (filter f xs)" by simp
  then show ?thesis by simp
qed

lemma first_match_None: "first_match f xs = None \<longleftrightarrow> (\<forall>x\<in>set xs. \<not> f x)"
proof -
  have "first_match f xs = None \<longleftrightarrow> filter f xs = []"
    by (simp add: first_match_def split: list.splits)
  then show ?thesis by (simp add: filter_empty_conv)
qed

lemma reason_or_nonempty: "d \<noteq> [] \<Longrightarrow> reason_or err d \<noteq> []"
proof (cases err)
  case (Error m r)
  assume "d \<noteq> []"
  then show ?thesis using Error by (cases r) auto
next
  case TypeError
  assume "d \<noteq> []"
  then show ?thesis using TypeError by simp
qed

lemma node_step_keeps: "node_step nd nd' \<Longrightarrow> nd h = Some r \<Longrightarrow> nd' h = Some r"
  by (induction rule: node_step.induct) auto

lemma node_steps_keep: "node_step\<^sup>*\<^sup>* nd nd' \<Longrightarrow> nd h = Some r \<Longrightarrow> nd' h = Some r"
  by (induction rule: rtranclp_induct) (auto dest: node_step_keeps)

text \<open>
  C4, as the specification states it, fails: when the node cannot be reached,
  \<open>getETHBalance\<close> returns the plain string \<open>error ETH balance lookup\<close>, and a rejected
  approval makes \<open>approveERC20\<close> return the string of the error's reason.
\<close>

theorem service_failure_string_counterexample:
  "getBalance offline_eth alice = Inl (Error ''could not detect network'' None)
   \<and> getETHBalance offline_eth alice = Str ''error ETH balance lookup''
   \<and> approveERC20 offline_eth alice ''0xrouter'' ''0xAbC1'' ''1000'' 20 = Str ''insufficient funds''"
  by (simp add: offline_eth_def getETHBalance_def approveERC20_def)

text \<open>
  C4, amended: \<open>getETHBalance\<close> and \<open>approveERC20\<close> catch every failure of the call they
  make and return a string in place of the value: the reason of the error when it has a
  non-empty one, and otherwise the fixed message of the operation. The string is never
  empty, and a call that succeeds returns its value.
\<close>

theorem service_failures_are_strings:
  "(\<forall>err. getBalance env w = Inl err \<longrightarrow>
       getETHBalance env w = Str (reason_or err ''error ETH balance lookup''))
   \<and> (\<forall>b. getBalance env w = Inr b \<longrightarrow> getETHBalance env w = Value (b div 10 ^ 18))
   \<and> (\<forall>err. approve env w t s a \<lparr> gasPrice = g * 10 ^ 9, gasLimit = APPROVAL_GAS_LIMIT env \<rparr>
               = Inl err \<longrightarrow>
       approveERC20 env w s t a g = Str (reason_or err ''error approval''))
   \<and> (\<forall>tx. approve env w t s a \<lparr> gasPrice = g * 10 ^ 9, gasLimit = APPROVAL_GAS_LIMIT env \<rparr>
               = Inr tx \<longrightarrow>
       approveERC20 env w s t a g = Value tx)
   \<and> (\<forall>m r d. reason_or (Error m r) d = (if r = None \<or> r = Some [] then d else the r))
   \<and> (\<forall>x. getETHBalance env w = Str x \<or> approveERC20 env w s t a g = Str x \<longrightarrow> x \<noteq> [])"
proof (intro conjI allI impI)
  fix x assume "getETHBalance env w = Str x \<or> approveERC20 env w s t a g = Str x"
  then show "x \<noteq> []"
    using reason_or_nonempty [of "''error ETH balance lookup''"]
          reason_or_nonempty [of "''error approval''"]
    by (auto simp: getETHBalance_def approveERC20_def split: sum.splits)
next
  fix m r d show "reason_or (Error m r) d = (if r = None \<or> r = Some [] then d else the r)"
    by (cases r) auto
qed (simp_all add: getETHBalance_def approveERC20_def)

theorem service_failures_are_strings_witness:
  "getBalance offline_eth alice = Inl (Error ''could not detect network'' None)
   \<and> getETHBalance offline_eth alice = Str ''error ETH balance lookup''"
proof -
  have b: "getBalance offline_eth alice = Inl (Error ''could not detect network'' None)"
    by (simp add: offline_eth_def)
  from service_failures_are_strings [of offline_eth alice] b
  have "getETHBalance offline_eth alice
          = Str (reason_or (Error ''could not detect network'' None) ''error ETH balance lookup'')"
    by blast
  with b show ?thesis by simp
qed

text \<open>
  C8: the handler reports \<open>confirmed\<close> exactly when the node holds a receipt that names
  a block. Before that, with no receipt or with one that names no block, every poll
  reports \<open>confirmed = false\<close> with the empty receipt. Once the node holds a receipt that
  names a block, this poll and every poll after any number of further inclusions report
  \<open>confirmed = true\<close> with that same receipt. Two polls of the same node differ in
  nothing but their times: the handler reads the receipts and writes nothing.
\<close>

theorem poll_idempotent:
  "(confirmed (poll_route cfg nd body t0 t1)
      \<longleftrightarrow> (\<exists>r. nd (txHash body) = Some r \<and> blockNumber r \<noteq> 0))
   \<and> ((nd (txHash body) = None \<or> (\<exists>r. nd (txHash body) = Some r \<and> blockNumber r = 0)) \<longrightarrow>
        confirmed (poll_route cfg nd body t0 t1) = False
        \<and> receipt (poll_route cfg nd body t0 t1) = None)
   \<and> (\<forall>r nd'. nd (txHash body) = Some r \<longrightarrow> blockNumber r \<noteq> 0 \<longrightarrow> node_step\<^sup>*\<^sup>* nd nd' \<longrightarrow>
        confirmed (poll_route cfg nd body t0 t1) = True
        \<and> receipt (poll_route cfg nd body t0 t1) = Some r
        \<and> confirmed (poll_route cfg nd' body t2 t3) = True
        \<and> receipt (poll_route cfg nd' body t2 t3) = Some r)
   \<and> confirmed (poll_route cfg nd body t2 t3) = confirmed (poll_route cfg nd body t0 t1)
   \<and> receipt (poll_route cfg nd body t2 t3) = receipt (poll_route cfg nd body t0 t1)"
proof (intro conjI allI impI)
  show "confirmed (poll_route cfg nd body t0 t1)
          \<longleftrightarrow> (\<exists>r. nd (txHash body) = Some r \<and> blockNumber r \<noteq> 0)"
    by (cases "nd (txHash body)")
      (simp_all add: poll_route_def getTransactionReceipt_def Let_def)
next
  assume p: "nd (txHash body) = None \<or> (\<exists>r. nd (txHash body) = Some r \<and> blockNumber r = 0)"
  then show "confirmed (poll_route cfg nd body t0 t1) = False"
    by (auto simp: poll_route_def getTransactionReceipt_def)
  from p show "receipt (poll_route cfg nd body t0 t1) = None"
    by (auto simp: poll_route_def getTransactionReceipt_def)
next
  fix r nd'
  assume a: "nd (txHash body) = Some r" and b: "blockNumber r \<noteq> 0" and s: "node_step\<^sup>*\<^sup>* nd nd'"
  from node_steps_keep [OF s a] have a': "nd' (txHash body) = Some r" .
  from a b show "confirmed (poll_route cfg nd body t0 t1) = True"
    by (simp add: poll_route_def getTransactionReceipt_def)
  from a b show "receipt (poll_route cfg nd body t0 t1) = Some r"
    by (simp add: poll_route_def getTransactionReceipt_def)
  from a' b show "confirmed (poll_route cfg nd' body t2 t3) = True"
    by (simp add: poll_route_def getTransactionReceipt_def)
  from a' b show "receipt (poll_route cfg nd' body t2 t3) = Some r"
    by (simp add: poll_route_def getTransactionReceipt_def)
qed (simp_all add: poll_route_def getTransactionReceipt_def Let_def)

theorem poll_idempotent_witness:
  "one_receipt ''0xdef'' = None
   \<and> confirmed (poll_route example_config one_receipt \<lparr> txHash = ''0xdef'' \<rparr> 1000 1250) = False
   \<and> blockless ''0x123'' = Some receipt0 \<and> blockNumber receipt0 = 0
   \<and> confirmed (poll_route example_config blockless \<lparr> txHash = ''0x123'' \<rparr> 1000 1250) = False
   \<and> receipt (poll_route example_config blockless \<lparr> txHash = ''0x123'' \<rparr> 1000 1250) = None
   \<and> one_receipt ''0xabc'' = Some receipt7 \<and> blockNumber receipt7 \<noteq> 0
   \<and> node_step\<^sup>*\<^sup>* one_receipt (one_receipt(''0xdef'' \<mapsto> receipt9))
   \<and> receipt (poll_route example_config one_receipt \<lparr> txHash = ''0xabc'' \<rparr> 1000 1250)
       = Some receipt7
   \<and> receipt (poll_route example_config (one_receipt(''0xdef'' \<mapsto> receipt9))
                \<lparr> txHash = ''0xabc'' \<rparr> 2000 2300) = Some receipt7"
proof -
  have p: "one_receipt (txHash \<lparr> txHash = ''0xdef'' \<rparr>) = None"
    by (simp add: one_receipt_def)
  have z: "blockless (txHash \<lparr> txHash = ''0x123'' \<rparr>) = Some receipt0"
    by (simp add: blockless_def)
  have z0: "blockNumber receipt0 = 0" by (simp add: receipt0_def)
  have i: "one_receipt (txHash \<lparr> txHash = ''0xabc'' \<rparr>) = Some receipt7"
    by (simp add: one_receipt_def)
  have b: "blockNumber receipt7 \<noteq> 0" by (simp add: receipt7_def)
  have "node_step one_receipt (one_receipt(''0xdef'' \<mapsto> receipt9))"
    by (rule node_step.mined) (simp_all add: one_receipt_def receipt9_def)
  then have s: "node_step\<^sup>*\<^sup>* one_receipt (one_receipt(''0xdef'' \<mapsto> receipt9))" by blast
  from poll_idempotent [of example_config one_receipt "\<lparr> txHash = ''0xdef'' \<rparr>" 1000 1250] p
  have c1: "confirmed (poll_route example_config one_receipt \<lparr> txHash = ''0xdef'' \<rparr> 1000 1250) = False"
    by blast
  from poll_idempotent [of example_config blockless "\<lparr> txHash = ''0x123'' \<rparr>" 1000 1250] z z0
  have c0: "confirmed (poll_route example_config blockless \<lparr> txHash = ''0x123'' \<rparr> 1000 1250) = False
          \<and> receipt (poll_route example_config blockless \<lparr> txHash = ''0x123'' \<rparr> 1000 1250) = None"
    by blast
  from poll_idempotent [of example_config one_receipt "\<lparr> txHash = ''0xabc'' \<rparr>" 1000 1250 2000 2300]
    i b s
  have c2: "receipt (poll_route example_config one_receipt \<lparr> txHash = ''0xabc'' \<rparr> 1000 1250)
              = Some receipt7
          \<and> receipt (poll_route example_config (one_receipt(''0xdef'' \<mapsto> receipt9))
                \<lparr> txHash = ''0xabc'' \<rparr> 2000 2300) = Some receipt7"
    by blast
  from p z z0 i b s c1 c0 c2 show ?thesis by simp
qed



text \<open>
  On a token list that has a \<open>tokens\<close> array the lookups compare as follows. The lookup
  by address compares the upper-cased stored address with the upper-cased query, so it
  finds a token exactly when some stored address agrees with the query after
  \<open>toUpperCase\<close>. The lookup by symbol compares the stored symbol as it is with the
  upper-cased query, so a token whose stored symbol has a lower-case letter is never
  the result of a query whose upper-cased form has none. Both return \<open>undefined\<close> when
  no token passes the comparison.
\<close>

lemma lookup_on_loaded_list:
  assumes ts: "tokens (erc20TokenList this) = Some ts"
  shows "(toUpperCase js a = toUpperCase js a' \<longrightarrow>
            getERC20TokenByAddress js this a = getERC20TokenByAddress js this a')
       \<and> (\<forall>obj. getERC20TokenByAddress js this a = Inr (Some obj) \<longrightarrow>
            obj \<in> set ts \<and> toUpperCase js (address obj) = toUpperCase js a)
       \<and> ((\<exists>obj\<in>set ts. toUpperCase js (address obj) = toUpperCase js a) \<longrightarrow>
            (\<exists>obj. getERC20TokenByAddress js this a = Inr (Some obj)))
       \<and> (\<forall>obj. getERC20TokenAddresses js this q = Inr (Some obj) \<longrightarrow>
            obj \<in> set ts \<and> symbol obj = toUpperCase js q)
       \<and> ((\<exists>obj\<in>set ts. symbol obj = toUpperCase js q) \<longrightarrow>
            (\<exists>obj. getERC20TokenAddresses js this q = Inr (Some obj)))
       \<and> (\<forall>obj. (\<exists>c\<in>set (symbol obj). is_lower c) \<longrightarrow>
            (\<forall>c\<in>set (toUpperCase js q). \<not> is_lower c) \<longrightarrow>
            getERC20TokenAddresses js this q \<noteq> Inr (Some obj))
       \<and> ((\<forall>obj\<in>set ts. symbol obj \<noteq> toUpperCase js q) \<longrightarrow>
            getERC20TokenAddresses js this q = Inr None)
       \<and> ((\<forall>obj\<in>set ts. toUpperCase js (address obj) \<noteq> toUpperCase js a) \<longrightarrow>
            getERC20TokenByAddress js this a = Inr None)"
proof (intro conjI allI impI)
  assume "toUpperCase js a = toUpperCase js a'"
  with ts show "getERC20TokenByAddress js this a = getERC20TokenByAddress js this a'"
    by (simp add: getERC20TokenByAddress_def)
next
  fix obj assume "getERC20TokenByAddress js this a = Inr (Some obj)"
  with ts have
    "first_match (\<lambda>obj. toUpperCase js (address obj) = toUpperCase js a) ts = Some obj"
    by (simp add: getERC20TokenByAddress_def)
  from first_match_Some [OF this]
  show "obj \<in> set ts" and "toUpperCase js (address obj) = toUpperCase js a" by simp_all
next
  assume "\<exists>obj\<in>set ts. toUpperCase js (address obj) = toUpperCase js a"
  then have
    "first_match (\<lambda>obj. toUpperCase js (address obj) = toUpperCase js a) ts \<noteq> None"
    by (simp add: first_match_None)
  with ts show "\<exists>obj. getERC20TokenByAddress js this a = Inr (Some obj)"
    by (auto simp: getERC20TokenByAddress_def)
next
  fix obj assume "getERC20TokenAddresses js this q = Inr (Some obj)"
  with ts have "first_match (\<lambda>obj. symbol obj = toUpperCase js q) ts = Some obj"
    by (simp add: getERC20TokenAddresses_def)
  from first_match_Some [OF this]
  show "obj \<in> set ts" and "symbol obj = toUpperCase js q" by simp_all
next
  assume "\<exists>obj\<in>set ts. symbol obj = toUpperCase js q"
  then have "first_match (\<lambda>obj. symbol obj = toUpperCase js q) ts \<noteq> None"
    by (simp add: first_match_None)
  with ts show "\<exists>obj. getERC20TokenAddresses js this q = Inr (Some obj)"
    by (auto simp: getERC20TokenAddresses_def)
next
  fix obj :: TokenInfo
  assume low: "\<exists>c\<in>set (symbol obj). is_lower c"
     and up: "\<forall>c\<in>set (toUpperCase js q). \<not> is_lower c"
  show "getERC20TokenAddresses js this q \<noteq> Inr (Some obj)"
  proof
    assume "getERC20TokenAddresses js this q = Inr (Some obj)"
    with ts have "first_match (\<lambda>obj. symbol obj = toUpperCase js q) ts = Some obj"
      by (simp add: getERC20TokenAddresses_def)
    from first_match_Some [OF this] have "symbol obj = toUpperCase js q" by simp
    with low up show False by auto
  qed
next
  assume "\<forall>obj\<in>set ts. symbol obj \<noteq> toUpperCase js q"
  then have "first_match (\<lambda>obj. symbol obj = toUpperCase js q) ts = None"
    by (simp add: first_match_None)
  with ts show "getERC20TokenAddresses js this q = Inr None"
    by (simp add: getERC20TokenAddresses_def)
next
  assume "\<forall>obj\<in>set ts. toUpperCase js (address obj) \<noteq> toUpperCase js a"
  then have
    "first_match (\<lambda>obj. toUpperCase js (address obj) = toUpperCase js a) ts = None"
    by (simp add: first_match_None)
  with ts show "getERC20TokenByAddress js this a = Inr None"
    by (simp add: getERC20TokenByAddress_def)
qed

lemma lookup_on_kovan_list:
  "tokens (erc20TokenList (Ethereum_constructor offline_eth (Some ''kovan''))) = tokens kovan_list
   \<and> getERC20TokenByAddress ascii_runtime (Ethereum_constructor offline_eth (Some ''kovan''))
        ''0xabc1''
       = getERC20TokenByAddress ascii_runtime (Ethereum_constructor offline_eth (Some ''kovan''))
           ''0XABC1''
   \<and> getERC20TokenAddresses ascii_runtime (Ethereum_constructor offline_eth (Some ''kovan''))
        ''cdai'' = Inr None
   \<and> getERC20TokenAddresses ascii_runtime (Ethereum_constructor offline_eth (Some ''kovan''))
        ''zrx'' = Inr None"
proof -
  let ?k = "Ethereum_constructor offline_eth (Some ''kovan'')"
  let ?ts = "[\<lparr> symbol = ''DAI'', address = ''0xAbC1'', decimals = 18 \<rparr>,
              \<lparr> symbol = ''cDAI'', address = ''0xdeF2'', decimals = 8 \<rparr>]"
  have l: "erc20TokenList ?k = kovan_list"
    by (simp add: Ethereum_constructor_def getERC20TokenList_def offline_eth_def)
  then have ts: "tokens (erc20TokenList ?k) = Some ?ts"
    by (simp add: kovan_list_def)
  have u: "toUpperCase ascii_runtime = map upper_char" by (simp add: ascii_runtime_def)
  have u1: "map upper_char ''0xabc1'' = map upper_char ''0XABC1''" by code_simp
  have u2: "map upper_char ''cdai'' = ''CDAI''" by code_simp
  have u3: "map upper_char ''zrx'' = ''ZRX''" by code_simp
  have e1: "toUpperCase ascii_runtime ''0xabc1'' = toUpperCase ascii_runtime ''0XABC1''"
    unfolding u by (rule u1)
  have n2: "\<forall>obj\<in>set ?ts. symbol obj \<noteq> toUpperCase ascii_runtime ''cdai''"
    unfolding u u2 by simp
  have n3: "\<forall>obj\<in>set ?ts. symbol obj \<noteq> toUpperCase ascii_runtime ''zrx''"
    unfolding u u3 by simp
  from lookup_on_loaded_list [OF ts, of ascii_runtime "''0xabc1''" "''0XABC1''" "''cdai''"] e1 n2
  have a: "getERC20TokenByAddress ascii_runtime ?k ''0xabc1''
             = getERC20TokenByAddress ascii_runtime ?k ''0XABC1''
         \<and> getERC20TokenAddresses ascii_runtime ?k ''cdai'' = Inr None"
    by blast
  from lookup_on_loaded_list [OF ts, of ascii_runtime "''0xabc1''" "''0XABC1''" "''zrx''"] n3
  have b: "getERC20TokenAddresses ascii_runtime ?k ''zrx'' = Inr None"
    by blast
  from l a b show ?thesis by simp
qed

text \<open>
  C10: the lookups are to return \<open>undefined\<close>, with no error, when no token matches.
  An instance made for the default network \<open>'mainnet'\<close> never loads its list: the
  comparison \<open>this.erc20TokenList === {}\<close> that guards the download is never true, so
  the list stays \<open>{}\<close> although the source of the list answers, and on it both lookups
  throw a \<open>TypeError\<close>, whatever the environment and the query. The instance made for
  \<open>'kovan'\<close> in the same environment does load its list.
\<close>

theorem token_lookup_default_throws:
  "axiosGet offline_eth (ETHEREUM_TOKEN_LIST_URL offline_eth) = Inr (200, Some kovan_list)
   \<and> tokens (erc20TokenList (Ethereum_constructor offline_eth None)) = None
   \<and> getERC20TokenAddresses ascii_runtime (Ethereum_constructor offline_eth None) ''DAI''
       = Inl TypeError
   \<and> getERC20TokenByAddress ascii_runtime (Ethereum_constructor offline_eth None) ''0xAbC1''
       = Inl TypeError
   \<and> tokens (erc20TokenList (Ethereum_constructor offline_eth (Some ''kovan'')))
       = tokens kovan_list
   \<and> (\<forall>env js q. getERC20TokenAddresses js (Ethereum_constructor env None) q = Inl TypeError
                 \<and> getERC20TokenByAddress js (Ethereum_constructor env None) q = Inl TypeError)"
  by (simp add: Ethereum_constructor_def getERC20TokenList_def is_fresh_object_def
        getERC20TokenAddresses_def getERC20TokenByAddress_def offline_eth_def)

end
